theory Spec2Isabelle
  imports Complex_Main
begin

section \<open>Storefront: data model, pricing, cart and order placement\<close>

text \<open>
  A shallow embedding of the commerce core of the clothing storefront:
  the tables of \<^verbatim>\<open>app/core/database.py\<close>, the queries of the catalog pages,
  the cart handlers of \<^verbatim>\<open>app/frontend/pages/cart.py\<close> and the checkout page with its
  \<^verbatim>\<open>place_order\<close> handler of \<^verbatim>\<open>app/frontend/pages/checkout.py\<close>.

  Conventions of the model.
  \<^item> A table is the list of its rows in storage order; a query with \<^verbatim>\<open>.all()\<close> is a
    \<open>filter\<close> over that list.
  \<^item> Money is binary floating point, as in the code (\<^verbatim>\<open>Float\<close> columns, Python
    floats). A float is the rational number it holds, and every arithmetic operation
    rounds its exact result to the nearest double.
  \<^item> A nullable column whose absence the code tests is an \<open>option\<close>.
  \<^item> A handler returns the interface events it emits (\<^verbatim>\<open>ui.notify\<close>,
    \<^verbatim>\<open>ui.navigate.to\<close>) together with the database after it.
  \<^item> The random part of an order number, \<^verbatim>\<open>uuid.uuid4().hex[:8].upper()\<close>, and the
    process-wide \<^verbatim>\<open>auth_manager.current_user\<close> are parameters of the handlers.
\<close>

subsection \<open>Tables\<close>

record product =
  p_id :: nat
  p_name :: string
  price :: rat
  sale_price :: "rat option"
  stock_quantity :: int
  is_active :: bool
  is_featured :: bool

record category =
  c_id :: nat
  c_name :: string
  c_slug :: string
  c_is_active :: bool

record cart_item =
  ci_id :: nat
  ci_user_id :: nat
  ci_product_id :: nat
  ci_quantity :: int
  ci_size :: "string option"
  ci_color :: "string option"

record order =
  o_id :: nat
  o_user_id :: nat
  order_number :: string
  status :: string
  total_amount :: rat
  shipping_address :: string
  payment_method :: string
  payment_status :: string

record order_item =
  oi_id :: nat
  oi_order_id :: nat
  oi_product_id :: nat
  oi_quantity :: int
  oi_price :: rat
  oi_size :: "string option"
  oi_color :: "string option"

record database =
  products :: "product list"
  categories :: "category list"
  product_categories :: "(nat \<times> nat) list"
  cart_items :: "cart_item list"
  orders :: "order list"
  order_items :: "order_item list"

text \<open>The primary key the storage layer gives a new row: one above the largest in use.\<close>

definition next_id :: "nat list \<Rightarrow> nat" where
  "next_id ids = Suc (fold max ids 0)"

subsection \<open>Floating point\<close>

text \<open>
  IEEE 754 double precision, round to nearest, ties to even: 53 significant bits. The
  exponent is not bounded in the model, so overflow to infinity and the subnormal
  numbers are not represented; prices, quantities and totals of a shop are far from
  both.
\<close>

fun bit_length :: "nat \<Rightarrow> nat" where
  "bit_length n = (if n = 0 then 0 else Suc (bit_length (n div 2)))"

declare bit_length.simps [simp del]

text \<open>The exponent \<open>e\<close> of a non-zero number: \<open>2 ^ e \<le> \<bar>x\<bar> < 2 ^ (e + 1)\<close>.\<close>

definition float_exponent :: "rat \<Rightarrow> int" where
  "float_exponent x =
     (if 1 \<le> \<bar>x\<bar> then int (bit_length (nat \<lfloor>\<bar>x\<bar>\<rfloor>)) - 1
      else - int (bit_length (nat (\<lceil>1 / \<bar>x\<bar>\<rceil> - 1))))"

definition pow2 :: "int \<Rightarrow> rat" where
  "pow2 k = (if 0 \<le> k then 2 ^ nat k else 1 / 2 ^ nat (- k))"

definition round_half_even :: "rat \<Rightarrow> int" where
  "round_half_even y =
     (let n = \<lfloor>y\<rfloor>; r = y - of_int n in
      if r < 1 / 2 then n else if 1 / 2 < r then n + 1 else if even n then n else n + 1)"

definition float_round :: "rat \<Rightarrow> rat" where
  "float_round x =
     (if x = 0 then 0
      else (let u = pow2 (float_exponent x - 52) in of_int (round_half_even (x / u)) * u))"

text \<open>
  A decimal literal of the source (\<^verbatim>\<open>1.08\<close>, \<^verbatim>\<open>39.99\<close>) denotes the double nearest to
  it; an integer operand of a float operation is converted to a double first.
\<close>

definition float_lit :: "rat \<Rightarrow> rat" where
  "float_lit r = float_round r"

definition float_of_int :: "int \<Rightarrow> rat" where
  "float_of_int i = float_round (of_int i)"

definition float_mul :: "rat \<Rightarrow> rat \<Rightarrow> rat" where
  "float_mul a b = float_round (a * b)"

definition float_add :: "rat \<Rightarrow> rat \<Rightarrow> rat" where
  "float_add a b = float_round (a + b)"

text \<open>
  The builtin \<^verbatim>\<open>sum\<close> over floats: from 0, one rounded addition per summand, left to
  right.
\<close>

definition py_sum :: "rat list \<Rightarrow> rat" where
  "py_sum xs = foldl float_add 0 xs"

subsection \<open>Pricing\<close>

text \<open>
  \<^verbatim>\<open>Product.current_price\<close>: \<^verbatim>\<open>self.sale_price if self.sale_price else self.price\<close>.
  Python's truth test on an optional float is false for \<^verbatim>\<open>None\<close> and for zero and true
  for every other number.
\<close>

definition truthy_float :: "rat option \<Rightarrow> bool" where
  "truthy_float v = (case v of None \<Rightarrow> False | Some x \<Rightarrow> x \<noteq> 0)"

definition current_price :: "product \<Rightarrow> rat" where
  "current_price p =
     (case sale_price p of
        None \<Rightarrow> price p
      | Some s \<Rightarrow> if truthy_float (Some s) then s else price p)"

text \<open>
  The effective price in the specification's words: the sale price if present and valid
  (greater than 0 and at most the list price), else the list price.
\<close>

definition effectivePrice_spec :: "product \<Rightarrow> rat" where
  "effectivePrice_spec p =
     (case sale_price p of
        None \<Rightarrow> price p
      | Some s \<Rightarrow> if 0 < s \<and> s \<le> price p then s else price p)"

text \<open>
  The amount of an order line as the code computes it, \<^verbatim>\<open>price * quantity\<close>, and the
  subtotal of the order items of an order: the sum of their amounts.
\<close>

definition line_amount :: "rat \<Rightarrow> int \<Rightarrow> rat" where
  "line_amount unit_price quantity = float_mul unit_price (float_of_int quantity)"




subsection \<open>Catalog queries\<close>

text \<open>
  \<^verbatim>\<open>products_page\<close>: active products, narrowed to a category when the slug names one.
  An absent or empty slug, or one no category has, leaves the active products unfiltered.
  The category filter joins the products with the association table, and the rows come
  in the order of the association table.
\<close>

definition products_page :: "database \<Rightarrow> string option \<Rightarrow> product list" where
  "products_page db category =
     (let query = filter is_active (products db) in
      case category of
        None \<Rightarrow> query
      | Some slug \<Rightarrow>
          if slug = [] then query
          else (case find (\<lambda>c. c_slug c = slug) (categories db) of
                  None \<Rightarrow> query
                | Some current_category \<Rightarrow>
                    concat
                      (map (\<lambda>(product_id, category_id).
                              if category_id = c_id current_category
                              then filter (\<lambda>p. p_id p = product_id) query else [])
                         (product_categories db))))"

text \<open>\<^verbatim>\<open>home_page\<close>: the featured products, at most eight.\<close>

definition home_page_featured :: "database \<Rightarrow> product list" where
  "home_page_featured db = take 8 (filter is_featured (products db))"

subsection \<open>Interface events\<close>

datatype ui_event = Notify string string | NavigateTo string

fun str_nat :: "nat \<Rightarrow> string" where
  "str_nat n =
     (if n < 10 then [''0123456789'' ! n]
      else str_nat (n div 10) @ [''0123456789'' ! (n mod 10)])"

definition str_int :: "int \<Rightarrow> string" where
  "str_int i = (if i < 0 then CHR ''-'' # str_nat (nat (- i)) else str_nat (nat i))"

subsection \<open>Cart\<close>

text \<open>The cart query of \<^verbatim>\<open>cart_page\<close> and \<^verbatim>\<open>checkout_page\<close>: the user's rows.\<close>

definition list_items :: "database \<Rightarrow> nat \<Rightarrow> cart_item list" where
  "list_items db uid = filter (\<lambda>ci. ci_user_id ci = uid) (cart_items db)"

text \<open>
  \<^verbatim>\<open>add_to_cart\<close> of the product page: it notifies and opens no database session.
\<close>

definition add_to_cart :: "product \<Rightarrow> int \<Rightarrow> database \<Rightarrow> ui_event list \<times> database" where
  "add_to_cart p quantity db =
     ([Notify (''Added '' @ str_int quantity @ '' x '' @ p_name p @ '' to cart!'') ''positive''],
      db)"

definition remove_item :: "cart_item \<Rightarrow> database \<Rightarrow> ui_event list \<times> database" where
  "remove_item item db =
     ([Notify ''Item removed from cart'' ''positive'', NavigateTo ''/cart''],
      db\<lparr>cart_items := filter (\<lambda>r. ci_id r \<noteq> ci_id item) (cart_items db)\<rparr>)"

text \<open>
  \<^verbatim>\<open>update_quantity\<close>. The quantity column is a 64-bit integer: binding a larger
  number raises, and the handler ends with neither a write nor a notification.
\<close>

definition update_quantity :: "cart_item \<Rightarrow> int \<Rightarrow> database \<Rightarrow> ui_event list \<times> database" where
  "update_quantity item change db =
     (let new_quantity = ci_quantity item + change in
      if new_quantity \<le> 0 then remove_item item db
      else if 9223372036854775807 < new_quantity then ([], db)
      else
        ([Notify ''Cart updated'' ''positive'', NavigateTo ''/cart''],
         db\<lparr>cart_items :=
              map (\<lambda>r. if ci_id r = ci_id item then r\<lparr>ci_quantity := new_quantity\<rparr> else r)
                (cart_items db)\<rparr>))"

subsection \<open>Checkout page\<close>

text \<open>
  A cart row as the page holds it: the row with its product loaded
  (\<^verbatim>\<open>item.product\<close>). The page closes the session after rendering, so the handler
  of the button sees these loaded values, not the database of the click.
\<close>

type_synonym cart_line = "cart_item \<times> product"

fun load_products :: "database \<Rightarrow> cart_item list \<Rightarrow> cart_line list option" where
  "load_products db [] = Some []"
| "load_products db (ci # rest) =
     (case find (\<lambda>p. p_id p = ci_product_id ci) (products db) of
        None \<Rightarrow> None
      | Some p \<Rightarrow>
          (case load_products db rest of
             None \<Rightarrow> None
           | Some ls \<Rightarrow> Some ((ci, p) # ls)))"

definition cart_total :: "cart_line list \<Rightarrow> rat" where
  "cart_total ls =
     py_sum (map (\<lambda>(ci, p). line_amount (current_price p) (ci_quantity ci)) ls)"

text \<open>
  What \<^verbatim>\<open>checkout_page\<close> renders: a notice with a label, or the form, which carries
  the cart lines and the subtotal its button passes on. A cart row whose product is
  missing makes the subtotal raise, and the page is not rendered.
\<close>

datatype page = NoticePage string | CheckoutForm "cart_line list" rat | RenderError

definition checkout_page :: "database \<Rightarrow> nat option \<Rightarrow> page" where
  "checkout_page db current_user =
     (case current_user of
        None \<Rightarrow> NoticePage ''Please log in to checkout''
      | Some uid \<Rightarrow>
          (let cart = list_items db uid in
           if cart = [] then NoticePage ''Your cart is empty''
           else (case load_products db cart of
                   None \<Rightarrow> RenderError
                 | Some ls \<Rightarrow> CheckoutForm ls (cart_total ls))))"

subsection \<open>Order placement\<close>

record checkout_form =
  first_name :: string
  last_name :: string
  email :: string
  phone :: string
  address :: string
  city :: string
  state :: string
  zip_code :: string
  form_payment_method :: string

datatype db_error = AttributeError | IntegrityError

text \<open>Python's \<^verbatim>\<open>all\<close> over strings: a string is true when it is not empty.\<close>

definition all_truthy :: "string list \<Rightarrow> bool" where
  "all_truthy fs = list_all (\<lambda>s. s \<noteq> []) fs"

fun add_order_items :: "nat \<Rightarrow> cart_line list \<Rightarrow> order_item list \<Rightarrow> order_item list" where
  "add_order_items oid [] rows = rows"
| "add_order_items oid ((ci, p) # rest) rows =
     add_order_items oid rest
       (rows @ [\<lparr>oi_id = next_id (map oi_id rows), oi_order_id = oid,
                 oi_product_id = ci_product_id ci, oi_quantity = ci_quantity ci,
                 oi_price = current_price p, oi_size = ci_size ci, oi_color = ci_color ci\<rparr>])"

fun delete_cart_items :: "cart_line list \<Rightarrow> cart_item list \<Rightarrow> cart_item list" where
  "delete_cart_items [] rows = rows"
| "delete_cart_items ((ci, p) # rest) rows =
     delete_cart_items rest (filter (\<lambda>r. ci_id r \<noteq> ci_id ci) rows)"

text \<open>
  The body of the \<^verbatim>\<open>try\<close> block. Reading the id of an absent current user raises;
  the flush of the new order raises when its number is already stored (the column is
  unique). Nothing is written before the commit that ends the block.
\<close>

definition order_transaction ::
  "checkout_form \<Rightarrow> cart_line list \<Rightarrow> rat \<Rightarrow> nat option \<Rightarrow> string \<Rightarrow> database
     \<Rightarrow> db_error + (order \<times> database)" where
  "order_transaction f lines total' current_user uuid_hex8 db =
     (case current_user of
        None \<Rightarrow> Inl AttributeError
      | Some uid \<Rightarrow>
          (let new_order =
             \<lparr>o_id = next_id (map o_id (orders db)), o_user_id = uid,
              order_number = ''ORD-'' @ uuid_hex8, status = ''confirmed'',
              total_amount = total',
              shipping_address =
                address f @ '', '' @ city f @ '', '' @ state f @ '' '' @ zip_code f,
              payment_method = form_payment_method f, payment_status = ''paid''\<rparr>
           in
           if order_number new_order \<in> set (map order_number (orders db))
           then Inl IntegrityError
           else
             Inr (new_order,
                  db\<lparr>orders := orders db @ [new_order],
                      order_items := add_order_items (o_id new_order) lines (order_items db),
                      cart_items := delete_cart_items lines (cart_items db)\<rparr>)))"

definition place_order ::
  "checkout_form \<Rightarrow> cart_line list \<Rightarrow> rat \<Rightarrow> nat option \<Rightarrow> string \<Rightarrow> database
     \<Rightarrow> ui_event list \<times> database" where
  "place_order f lines total' current_user uuid_hex8 db =
     (if \<not> all_truthy [first_name f, last_name f, email f, address f, city f, state f,
                         zip_code f]
      then ([Notify ''Please fill in all required fields'' ''negative''], db)
      else
        (case order_transaction f lines total' current_user uuid_hex8 db of
           Inl e \<Rightarrow> ([Notify ''Error placing order. Please try again.'' ''negative''], db)
         | Inr (new_order, db') \<Rightarrow>
             ([Notify (''Order '' @ order_number new_order @ '' placed successfully!'')
                 ''positive'',
               NavigateTo ''/profile''],
              db')))"

text \<open>
  The button of the form: it calls \<^verbatim>\<open>place_order\<close> with the lines and the subtotal the
  form was rendered with, the total being \<^verbatim>\<open>total * 1.08\<close>.
\<close>

definition place_order_button ::
  "cart_line list \<Rightarrow> rat \<Rightarrow> checkout_form \<Rightarrow> nat option \<Rightarrow> string \<Rightarrow> database
     \<Rightarrow> ui_event list \<times> database" where
  "place_order_button ls total' f current_user uuid_hex8 db =
     place_order f ls (float_mul total' (float_lit (108 / 100))) current_user uuid_hex8 db"


subsection \<open>Sessions of the shop\<close>








subsection \<open>Example data\<close>

definition jeans :: product where
  "jeans = \<lparr>p_id = 1, p_name = ''Denim Skinny Jeans'', price = float_lit (4999 / 100),
     sale_price = Some (float_lit (3999 / 100)), stock_quantity = 1, is_active = True,
     is_featured = True\<rparr>"

definition tshirt :: product where
  "tshirt = \<lparr>p_id = 2, p_name = ''Classic White T-Shirt'',
     price = float_lit (1999 / 100),
     sale_price = None, stock_quantity = 100, is_active = False, is_featured = True\<rparr>"

definition marked_up :: product where
  "marked_up = \<lparr>p_id = 3, p_name = ''Leather Crossbody Bag'', price = 50,
     sale_price = Some 60, stock_quantity = 25, is_active = True, is_featured = False\<rparr>"

definition jeans_line :: cart_item where
  "jeans_line = \<lparr>ci_id = 1, ci_user_id = 7, ci_product_id = 1, ci_quantity = 2,
     ci_size = Some ''M'', ci_color = Some ''Blue''\<rparr>"

definition tshirt_line :: cart_item where
  "tshirt_line = \<lparr>ci_id = 2, ci_user_id = 7, ci_product_id = 2, ci_quantity = 1,
     ci_size = None, ci_color = None\<rparr>"

definition shop :: database where
  "shop = \<lparr>products = [jeans, tshirt], categories = [], product_categories = [],
     cart_items = [jeans_line, tshirt_line], orders = [], order_items = []\<rparr>"

definition empty_cart_shop :: database where
  "empty_cart_shop = \<lparr>products = [jeans, tshirt], categories = [], product_categories = [],
     cart_items = [], orders = [], order_items = []\<rparr>"

definition earlier_order :: order where
  "earlier_order = \<lparr>o_id = 1, o_user_id = 3, order_number = ''ORD-1A2B3C4D'',
     status = ''confirmed'', total_amount = 0, shipping_address = ''2 Elm St, Salem, OR 97301'',
     payment_method = ''PayPal'', payment_status = ''paid''\<rparr>"

definition shop_with_order :: database where
  "shop_with_order = shop\<lparr>orders := [earlier_order]\<rparr>"

definition full_form :: checkout_form where
  "full_form = \<lparr>first_name = ''Ada'', last_name = ''Byron'', email = ''ada@example.org'',
     phone = [], address = ''1 Main St'', city = ''Springfield'', state = ''IL'',
     zip_code = ''62701'', form_payment_method = ''Credit Card''\<rparr>"

definition shop_lines :: "cart_line list" where
  "shop_lines = [(jeans_line, jeans), (tshirt_line, tshirt)]"

text \<open>
  The subtotal the checkout form of the example shop shows, \<^verbatim>\<open>99.97\<close>, and the total
  its button passes on, \<^verbatim>\<open>107.9676\<close>.
\<close>

definition shop_subtotal :: rat where
  "shop_subtotal = float_lit (9997 / 100)"

definition shop_total :: rat where
  "shop_total = float_lit (1079676 / 10000)"

definition placed_order :: order where
  "placed_order = \<lparr>o_id = 1, o_user_id = 7, order_number = ''ORD-77AA00FF'',
     status = ''confirmed'', total_amount = shop_total,
     shipping_address = ''1 Main St, Springfield, IL 62701'',
     payment_method = ''Credit Card'', payment_status = ''paid''\<rparr>"

definition placed_items :: "order_item list" where
  "placed_items =
     [\<lparr>oi_id = 1, oi_order_id = 1, oi_product_id = 1, oi_quantity = 2,
       oi_price = float_lit (3999 / 100), oi_size = Some ''M'', oi_color = Some ''Blue''\<rparr>,
      \<lparr>oi_id = 2, oi_order_id = 1, oi_product_id = 2, oi_quantity = 1,
       oi_price = float_lit (1999 / 100), oi_size = None, oi_color = None\<rparr>]"

definition shop_after_order :: database where
  "shop_after_order =
     shop\<lparr>orders := [placed_order], order_items := placed_items, cart_items := []\<rparr>"












section \<open>Properties\<close>

subsection \<open>Primary keys and order items\<close>







subsection \<open>The outcomes of \<open>place_order\<close>\<close>

lemma all_truthy_seven:
  "all_truthy [a, b, c, d, e, g, h] \<longleftrightarrow>
     a \<noteq> [] \<and> b \<noteq> [] \<and> c \<noteq> [] \<and> d \<noteq> [] \<and> e \<noteq> [] \<and> g \<noteq> [] \<and> h \<noteq> []"
  by (simp add: all_truthy_def)

lemma place_order_rejected:
  assumes "\<not> all_truthy [first_name f, last_name f, email f, address f, city f, state f,
                           zip_code f]"
  shows "place_order f ls t cu num db =
     ([Notify ''Please fill in all required fields'' ''negative''], db)"
  using assms by (simp add: place_order_def)

lemma place_order_collision:
  assumes "all_truthy [first_name f, last_name f, email f, address f, city f, state f,
                        zip_code f]"
    and "''ORD-'' @ num \<in> set (map order_number (orders db))"
  shows "place_order f ls t cu num db =
     ([Notify ''Error placing order. Please try again.'' ''negative''], db)"
  using assms by (simp add: place_order_def order_transaction_def Let_def split: option.splits)

lemma place_order_success:
  assumes "all_truthy [first_name f, last_name f, email f, address f, city f, state f,
                        zip_code f]"
    and "''ORD-'' @ num \<notin> set (map order_number (orders db))"
  shows "place_order f ls t (Some uid) num db =
     ([Notify (''Order ORD-'' @ num @ '' placed successfully!'') ''positive'',
       NavigateTo ''/profile''],
      db\<lparr>orders := orders db @
             [\<lparr>o_id = next_id (map o_id (orders db)), o_user_id = uid,
               order_number = ''ORD-'' @ num, status = ''confirmed'', total_amount = t,
               shipping_address =
                 address f @ '', '' @ city f @ '', '' @ state f @ '' '' @ zip_code f,
               payment_method = form_payment_method f, payment_status = ''paid''\<rparr>],
          order_items := add_order_items (next_id (map o_id (orders db))) ls (order_items db),
          cart_items := delete_cart_items ls (cart_items db)\<rparr>)"
  using assms by (simp add: place_order_def order_transaction_def Let_def)

lemma place_order_products:
  "products (snd (place_order f ls t cu num db)) = products db"
  by (simp add: place_order_def order_transaction_def Let_def split: option.splits)


lemma place_order_cases:
  assumes "place_order f ls t cu num db = (evs, db')"
  shows "db' = db \<and> NavigateTo ''/profile'' \<notin> set evs
   \<or> (\<exists>new. ''ORD-'' @ num \<notin> set (map order_number (orders db)) \<and>
        evs = [Notify (''Order ORD-'' @ num @ '' placed successfully!'') ''positive'',
               NavigateTo ''/profile''] \<and>
        o_id new = next_id (map o_id (orders db)) \<and> cu = Some (o_user_id new) \<and>
        order_number new = ''ORD-'' @ num \<and> total_amount new = t \<and>
        db' = db\<lparr>orders := orders db @ [new],
                 order_items := add_order_items (o_id new) ls (order_items db),
                 cart_items := delete_cart_items ls (cart_items db)\<rparr>)"
proof (cases "all_truthy [first_name f, last_name f, email f, address f, city f, state f,
                         zip_code f]")
  case False
  with assms show ?thesis by (auto simp: place_order_def)
next
  case filled: True
  show ?thesis
  proof (cases "order_transaction f ls t cu num db")
    case (Inl e)
    with assms filled show ?thesis by (auto simp: place_order_def)
  next
    case (Inr res)
    obtain new dbn where res: "res = (new, dbn)" by (cases res)
    from Inr res have tr: "cu = Some (o_user_id new)"
      "''ORD-'' @ num \<notin> set (map order_number (orders db))"
      "o_id new = next_id (map o_id (orders db))"
      "order_number new = ''ORD-'' @ num" "total_amount new = t"
      "dbn = db\<lparr>orders := orders db @ [new],
                 order_items := add_order_items (o_id new) ls (order_items db),
                 cart_items := delete_cart_items ls (cart_items db)\<rparr>"
      by (auto simp: order_transaction_def Let_def split: option.splits if_splits)
    from assms filled Inr res
    have "evs = [Notify (''Order '' @ order_number new @ '' placed successfully!'') ''positive'',
               NavigateTo ''/profile'']" and "db' = dbn"
      by (auto simp: place_order_def)
    with tr show ?thesis by auto
  qed
qed

subsection \<open>Evaluating the examples\<close>

lemmas example_defs = shop_def empty_cart_shop_def shop_with_order_def earlier_order_def
  jeans_line_def tshirt_line_def jeans_def tshirt_def marked_up_def shop_lines_def
  full_form_def placed_order_def placed_items_def shop_after_order_def

lemma shop_subtotal_eval: "cart_total shop_lines = shop_subtotal"
  by code_simp

lemma shop_total_eval: "float_mul shop_subtotal (float_lit (108 / 100)) = shop_total"
  by code_simp




lemma jeans_prices:
  "float_lit (3999 / 100) \<noteq> 0" "0 \<le> float_lit (3999 / 100)"
  "float_lit (3999 / 100) \<le> float_lit (4999 / 100)"
  by code_simp+

lemma shop_page: "checkout_page shop (Some 7) = CheckoutForm shop_lines shop_subtotal"
  by (simp add: checkout_page_def list_items_def shop_def jeans_line_def tshirt_line_def
      jeans_def tshirt_def flip: shop_subtotal_eval)
     (simp add: shop_lines_def jeans_line_def tshirt_line_def jeans_def tshirt_def)

lemma shop_placed:
  "place_order full_form shop_lines shop_total (Some 7) ''77AA00FF'' shop
     = ([Notify ''Order ORD-77AA00FF placed successfully!'' ''positive'',
         NavigateTo ''/profile''],
        shop_after_order)"
  by (simp add: place_order_def all_truthy_def order_transaction_def Let_def example_defs
      next_id_def current_price_def truthy_float_def jeans_prices)

lemma shop_button:
  "place_order_button shop_lines shop_subtotal full_form (Some 7) ''77AA00FF'' shop
     = ([Notify ''Order ORD-77AA00FF placed successfully!'' ''positive'',
         NavigateTo ''/profile''],
        shop_after_order)"
  by (simp only: place_order_button_def shop_total_eval shop_placed)

lemma full_form_filled:
  "all_truthy [first_name full_form, last_name full_form, email full_form,
     address full_form, city full_form, state full_form, zip_code full_form]"
  by (simp add: all_truthy_def full_form_def)

subsection \<open>Order totals\<close>














subsection \<open>Effective price\<close>

text \<open>
  Claim C4, as stated, fails: a sale price above the list price is returned as it is, so
  the effective price differs from the specification's and exceeds the list price.
\<close>

theorem current_price_markup_counterexample:
  "sale_price marked_up = Some 60 \<and> price marked_up = 50 \<and> current_price marked_up = 60 \<and>
   effectivePrice_spec marked_up = 50 \<and> \<not> current_price marked_up \<le> price marked_up"
  by (simp add: marked_up_def current_price_def truthy_float_def effectivePrice_spec_def)

text \<open>
  Claim C4, amended. The effective price is the sale price when one is present and not
  zero, otherwise the list price. It is at most the list price whenever the sale
  price is absent or at most the list price, and it agrees with the specification's
  effective price whenever the sale price is absent or between zero and the list price.
\<close>

theorem current_price_nonzero_sale:
  "(sale_price p = None \<or> sale_price p = Some 0 \<longrightarrow> current_price p = price p) \<and>
   (\<forall>s. sale_price p = Some s \<and> s \<noteq> 0 \<longrightarrow> current_price p = s) \<and>
   (sale_price p = None \<or> (\<exists>s. sale_price p = Some s \<and> s \<le> price p)
      \<longrightarrow> current_price p \<le> price p) \<and>
   (sale_price p = None \<or> (\<exists>s. sale_price p = Some s \<and> 0 \<le> s \<and> s \<le> price p)
      \<longrightarrow> current_price p = effectivePrice_spec p)"
  by (auto simp: current_price_def truthy_float_def effectivePrice_spec_def
      split: option.splits)

theorem current_price_nonzero_sale_witness:
  "sale_price jeans = Some (float_lit (3999 / 100)) \<and> float_lit (3999 / 100) \<noteq> 0 \<and>
   float_lit (3999 / 100) \<le> price jeans \<and> current_price jeans = float_lit (3999 / 100) \<and>
   current_price jeans \<le> price jeans \<and> current_price jeans = effectivePrice_spec jeans"
proof -
  have j: "sale_price jeans = Some (float_lit (3999 / 100))" "float_lit (3999 / 100) \<noteq> 0"
    "0 \<le> float_lit (3999 / 100)" "float_lit (3999 / 100) \<le> price jeans"
    by (simp_all add: jeans_def jeans_prices)
  note char = current_price_nonzero_sale[of jeans]
  from char j(1,2) have "current_price jeans = float_lit (3999 / 100)" by blast
  moreover from char j(1,4) have "current_price jeans \<le> price jeans" by blast
  moreover from char j(1,3,4) have "current_price jeans = effectivePrice_spec jeans" by blast
  ultimately show ?thesis using j by blast
qed

subsection \<open>Cart round trip\<close>

text \<open>
  Claim C5. The handler behind the Add to Cart button announces the addition and stores
  nothing: after adding two pairs of jeans to an empty cart the user's cart is still
  empty, where the claim expects exactly one item of quantity 2.
\<close>

theorem add_to_cart_stores_nothing:
  "add_to_cart jeans 2 empty_cart_shop =
     ([Notify ''Added 2 x Denim Skinny Jeans to cart!'' ''positive''], empty_cart_shop) \<and>
   list_items (snd (add_to_cart jeans 2 empty_cart_shop)) 7 = []"
  by (simp add: add_to_cart_def str_int_def list_items_def empty_cart_shop_def jeans_def)

text \<open>
  The second half of the round trip holds: a change that brings the quantity to zero or
  below removes the row from the user's cart.
\<close>

lemma update_quantity_to_zero_removes:
  "ci_quantity item + change \<le> 0 \<Longrightarrow>
   list_items (snd (update_quantity item change db)) uid
     = filter (\<lambda>r. ci_id r \<noteq> ci_id item) (list_items db uid)"
  by (simp add: update_quantity_def remove_item_def list_items_def Let_def conj_commute)

subsection \<open>Catalog visibility\<close>

lemma products_page_active_only: "p \<in> set (products_page db category) \<Longrightarrow> is_active p"
  by (auto simp: products_page_def Let_def split: option.splits if_splits prod.splits)

text \<open>
  Claim C8. The product listing, with or without a category, returns active products
  only (\<open>products_page_active_only\<close>), but the featured listing of the home page does
  not filter on the active flag: an inactive featured product is listed there.
\<close>

theorem home_page_lists_inactive_featured:
  "home_page_featured shop = [jeans, tshirt] \<and> \<not> is_active tshirt \<and>
   products_page shop None = [jeans]"
  by (simp add: home_page_featured_def products_page_def shop_def jeans_def tshirt_def)

subsection \<open>Checkout with an empty cart\<close>






subsection \<open>Stock\<close>

lemma shop_collision:
  "place_order full_form shop_lines t (Some 7) ''1A2B3C4D'' shop_with_order
     = ([Notify ''Error placing order. Please try again.'' ''negative''], shop_with_order)"
  by (rule place_order_collision[OF full_form_filled])
     (simp add: shop_with_order_def earlier_order_def)




text \<open>
  Claim C3, as stated, fails: the placed order asks for two pairs of jeans, and the
  stock of the jeans is 1 before and 1 after.
\<close>

theorem placed_order_keeps_stock_counterexample:
  "checkout_page shop (Some 7) = CheckoutForm shop_lines shop_subtotal \<and>
   fst (place_order_button shop_lines shop_subtotal full_form (Some 7) ''77AA00FF'' shop)
     = [Notify ''Order ORD-77AA00FF placed successfully!'' ''positive'',
        NavigateTo ''/profile''] \<and>
   order_items
     (snd (place_order_button shop_lines shop_subtotal full_form (Some 7) ''77AA00FF'' shop))
     = placed_items \<and>
   map oi_quantity placed_items = [2, 1] \<and>
   map stock_quantity (products shop) = [1, 100] \<and>
   map stock_quantity
     (products
       (snd (place_order_button shop_lines shop_subtotal full_form (Some 7) ''77AA00FF''
               shop)))
     = [1, 100]"
  by (simp add: shop_button shop_page) (simp add: example_defs)

text \<open>
  Claim C3, amended. No handler changes a product row, and so none changes a stock
  quantity: order placement leaves every product as it was (a placed order decrements
  nothing), and so do adding to the cart, changing a quantity and removing an item.
\<close>

theorem no_handler_changes_stock:
  "products (snd (place_order f ls t cu num db)) = products db \<and>
   products (snd (add_to_cart p quantity db)) = products db \<and>
   products (snd (update_quantity item change db)) = products db \<and>
   products (snd (remove_item item db)) = products db"
  by (simp add: place_order_products add_to_cart_def update_quantity_def remove_item_def
      Let_def)

subsection \<open>Required fields\<close>

text \<open>
  Claim C7, as stated, fails: a form without a first name and a form without a city and
  ZIP code are rejected with the same notice, which therefore lists no field; and a
  first name of one space counts as filled, the order being placed.
\<close>

theorem validation_notice_names_no_field_counterexample:
  "place_order (full_form\<lparr>first_name := []\<rparr>) shop_lines shop_total (Some 7)
     ''77AA00FF'' shop
     = ([Notify ''Please fill in all required fields'' ''negative''], shop) \<and>
   place_order (full_form\<lparr>city := [], zip_code := []\<rparr>) shop_lines shop_total (Some 7)
     ''77AA00FF'' shop
     = ([Notify ''Please fill in all required fields'' ''negative''], shop) \<and>
   fst (place_order (full_form\<lparr>first_name := '' ''\<rparr>) shop_lines shop_total (Some 7)
     ''77AA00FF'' shop)
     = [Notify ''Order ORD-77AA00FF placed successfully!'' ''positive'',
        NavigateTo ''/profile'']"
  by (simp add: place_order_def all_truthy_def order_transaction_def Let_def full_form_def
      shop_def)

text \<open>
  Claim C7, amended. If any of the seven required fields is empty, order placement
  answers with the one notice \<^verbatim>\<open>Please fill in all required fields\<close> and returns before
  it opens a database session: the database, with its orders, order items, products and
  cart, is unchanged.
\<close>

theorem empty_required_field_rejected:
  assumes "first_name f = [] \<or> last_name f = [] \<or> email f = [] \<or> address f = [] \<or>
           city f = [] \<or> state f = [] \<or> zip_code f = []"
  shows "place_order f ls t cu num db =
     ([Notify ''Please fill in all required fields'' ''negative''], db)"
proof (rule place_order_rejected)
  from assms
  show "\<not> all_truthy [first_name f, last_name f, email f, address f, city f, state f,
                        zip_code f]"
    unfolding all_truthy_seven by blast
qed

theorem empty_required_field_rejected_witness:
  "email (full_form\<lparr>email := []\<rparr>) = [] \<and>
   place_order (full_form\<lparr>email := []\<rparr>) shop_lines shop_total (Some 7) ''77AA00FF'' shop
     = ([Notify ''Please fill in all required fields'' ''negative''], shop)"
proof -
  have h: "email (full_form\<lparr>email := []\<rparr>) = []" by simp
  then have "first_name (full_form\<lparr>email := []\<rparr>) = [] \<or>
      last_name (full_form\<lparr>email := []\<rparr>) = [] \<or> email (full_form\<lparr>email := []\<rparr>) = [] \<or>
      address (full_form\<lparr>email := []\<rparr>) = [] \<or> city (full_form\<lparr>email := []\<rparr>) = [] \<or>
      state (full_form\<lparr>email := []\<rparr>) = [] \<or> zip_code (full_form\<lparr>email := []\<rparr>) = []"
    by blast
  from h empty_required_field_rejected[OF this] show ?thesis by blast
qed

subsection \<open>Order numbers\<close>

text \<open>
  Claim C9, as stated, fails: when the generated number is that of a stored order, the
  placement is not retried with a new number; the user gets the error notice and no
  order.
\<close>

theorem order_number_collision_counterexample:
  "''ORD-1A2B3C4D'' \<in> set (map order_number (orders shop_with_order)) \<and>
   checkout_page shop_with_order (Some 7) = CheckoutForm shop_lines shop_subtotal \<and>
   place_order_button shop_lines shop_subtotal full_form (Some 7) ''1A2B3C4D''
     shop_with_order
     = ([Notify ''Error placing order. Please try again.'' ''negative''], shop_with_order)"
proof -
  have "checkout_page shop_with_order (Some 7) = CheckoutForm shop_lines shop_subtotal"
    by (simp add: checkout_page_def list_items_def shop_with_order_def shop_def
        jeans_line_def tshirt_line_def jeans_def tshirt_def flip: shop_subtotal_eval)
       (simp add: shop_lines_def jeans_line_def tshirt_line_def jeans_def tshirt_def)
  then show ?thesis
    by (simp add: place_order_button_def shop_collision)
       (simp add: shop_with_order_def earlier_order_def)
qed

text \<open>
  Claim C9, amended. Stored order numbers stay unique: placing an order never makes two
  stored orders share a number. A generated number that is already stored is
  detected, and the placement then ends with the error notice shown to the user and the
  database unchanged; it is not regenerated and not retried.
\<close>

theorem order_numbers_stay_unique:
  "(distinct (map order_number (orders db))
      \<longrightarrow> distinct (map order_number (orders (snd (place_order f ls t cu num db))))) \<and>
   (all_truthy [first_name f, last_name f, email f, address f, city f, state f, zip_code f] \<and>
    ''ORD-'' @ num \<in> set (map order_number (orders db))
      \<longrightarrow> place_order f ls t cu num db
            = ([Notify ''Error placing order. Please try again.'' ''negative''], db))"
proof (intro conjI impI)
  assume d: "distinct (map order_number (orders db))"
  obtain evs db' where po: "place_order f ls t cu num db = (evs, db')"
    by (cases "place_order f ls t cu num db")
  from place_order_cases[OF po] d
  have "distinct (map order_number (orders db'))" by auto
  with po show "distinct (map order_number (orders (snd (place_order f ls t cu num db))))"
    by simp
next
  assume "all_truthy [first_name f, last_name f, email f, address f, city f, state f,
                       zip_code f] \<and>
    ''ORD-'' @ num \<in> set (map order_number (orders db))"
  then show "place_order f ls t cu num db
      = ([Notify ''Error placing order. Please try again.'' ''negative''], db)"
    by (simp add: place_order_collision)
qed

theorem order_numbers_stay_unique_witness:
  "distinct (map order_number (orders shop_with_order)) \<and>
   all_truthy [first_name full_form, last_name full_form, email full_form,
     address full_form, city full_form, state full_form, zip_code full_form] \<and>
   ''ORD-1A2B3C4D'' \<in> set (map order_number (orders shop_with_order)) \<and>
   place_order full_form shop_lines shop_total (Some 7) ''1A2B3C4D'' shop_with_order
     = ([Notify ''Error placing order. Please try again.'' ''negative''], shop_with_order) \<and>
   distinct (map order_number (orders
     (snd (place_order full_form shop_lines shop_total (Some 7) ''1A2B3C4D''
             shop_with_order))))"
proof -
  have d: "distinct (map order_number (orders shop_with_order))"
    and c: "''ORD-'' @ ''1A2B3C4D'' \<in> set (map order_number (orders shop_with_order))"
    by (simp_all add: shop_with_order_def earlier_order_def)
  note u = order_numbers_stay_unique
    [of shop_with_order full_form shop_lines shop_total "Some 7" "''1A2B3C4D''"]
  from u d c full_form_filled show ?thesis by simp
qed

subsection \<open>Phone is optional\<close>

text \<open>
  Claim C10, as stated, fails: with the seven fields filled and the phone blank the
  order is not created when the generated number is already stored, nor when no user is
  logged in any more.
\<close>

theorem blank_phone_order_not_created_counterexample:
  "phone full_form = [] \<and>
   all_truthy [first_name full_form, last_name full_form, email full_form,
     address full_form, city full_form, state full_form, zip_code full_form] \<and>
   place_order full_form shop_lines shop_total (Some 7) ''77AA00FF'' shop_after_order
     = ([Notify ''Error placing order. Please try again.'' ''negative''], shop_after_order) \<and>
   place_order full_form shop_lines shop_total None ''77AA00FF'' shop
     = ([Notify ''Error placing order. Please try again.'' ''negative''], shop)"
  by (simp add: full_form_filled)
     (simp add: place_order_def all_truthy_def order_transaction_def Let_def full_form_def
        shop_after_order_def placed_order_def shop_def)

text \<open>
  Claim C10, amended. The validation notice is the answer exactly when one of first name,
  last name, email, address, city, state and ZIP code is empty; the phone never changes
  the outcome; and with those seven filled, the phone blank, a user logged in and a
  generated order number that is not stored yet, the order is created.
\<close>

theorem phone_not_required:
  "(fst (place_order f ls t cu num db)
      = [Notify ''Please fill in all required fields'' ''negative'']
    \<longleftrightarrow> first_name f = [] \<or> last_name f = [] \<or> email f = [] \<or> address f = [] \<or>
        city f = [] \<or> state f = [] \<or> zip_code f = []) \<and>
   place_order (f\<lparr>phone := ph\<rparr>) ls t cu num db = place_order f ls t cu num db \<and>
   (first_name f \<noteq> [] \<and> last_name f \<noteq> [] \<and> email f \<noteq> [] \<and> address f \<noteq> [] \<and>
    city f \<noteq> [] \<and> state f \<noteq> [] \<and> zip_code f \<noteq> [] \<and>
    ''ORD-'' @ num \<notin> set (map order_number (orders db))
    \<longrightarrow> (\<exists>new. orders (snd (place_order (f\<lparr>phone := []\<rparr>) ls t (Some uid) num db))
                  = orders db @ [new] \<and>
               o_user_id new = uid \<and> order_number new = ''ORD-'' @ num \<and>
               total_amount new = t))"
proof (intro conjI impI)
  show "fst (place_order f ls t cu num db)
      = [Notify ''Please fill in all required fields'' ''negative'']
    \<longleftrightarrow> first_name f = [] \<or> last_name f = [] \<or> email f = [] \<or> address f = [] \<or>
        city f = [] \<or> state f = [] \<or> zip_code f = []"
    by (auto simp: place_order_def all_truthy_def split: sum.splits)
next
  have "order_transaction (f\<lparr>phone := ph\<rparr>) ls t cu num db = order_transaction f ls t cu num db"
    by (cases cu) (simp_all add: order_transaction_def)
  then show "place_order (f\<lparr>phone := ph\<rparr>) ls t cu num db = place_order f ls t cu num db"
    by (simp add: place_order_def)
next
  assume a: "first_name f \<noteq> [] \<and> last_name f \<noteq> [] \<and> email f \<noteq> [] \<and> address f \<noteq> [] \<and>
    city f \<noteq> [] \<and> state f \<noteq> [] \<and> zip_code f \<noteq> [] \<and>
    ''ORD-'' @ num \<notin> set (map order_number (orders db))"
  let ?g = "f\<lparr>phone := []\<rparr>"
  from a have "all_truthy [first_name ?g, last_name ?g, email ?g, address ?g, city ?g,
      state ?g, zip_code ?g]"
    by (simp add: all_truthy_seven)
  from place_order_success[OF this, of num db ls t uid] a
  show "\<exists>new. orders (snd (place_order ?g ls t (Some uid) num db)) = orders db @ [new] \<and>
      o_user_id new = uid \<and> order_number new = ''ORD-'' @ num \<and> total_amount new = t"
    by simp
qed

theorem phone_not_required_witness:
  "first_name full_form \<noteq> [] \<and> last_name full_form \<noteq> [] \<and> email full_form \<noteq> [] \<and>
   address full_form \<noteq> [] \<and> city full_form \<noteq> [] \<and> state full_form \<noteq> [] \<and>
   zip_code full_form \<noteq> [] \<and>
   ''ORD-'' @ ''77AA00FF'' \<notin> set (map order_number (orders shop)) \<and>
   (\<exists>new. orders (snd (place_order (full_form\<lparr>phone := []\<rparr>) shop_lines shop_total
                          (Some 7) ''77AA00FF'' shop))
             = orders shop @ [new] \<and>
          o_user_id new = 7 \<and> order_number new = ''ORD-'' @ ''77AA00FF'' \<and>
          total_amount new = shop_total)"
proof -
  have filled: "first_name full_form \<noteq> [] \<and> last_name full_form \<noteq> [] \<and>
      email full_form \<noteq> [] \<and> address full_form \<noteq> [] \<and> city full_form \<noteq> [] \<and>
      state full_form \<noteq> [] \<and> zip_code full_form \<noteq> []"
    by (simp add: full_form_def)
  have fresh: "''ORD-'' @ ''77AA00FF'' \<notin> set (map order_number (orders shop))"
    by (simp add: shop_def)
  note optional = phone_not_required
    [of full_form shop_lines shop_total "Some 7" "''77AA00FF''" shop "[]" 7]
  from optional filled fresh
  have "\<exists>new. orders (snd (place_order (full_form\<lparr>phone := []\<rparr>) shop_lines shop_total
                          (Some 7) ''77AA00FF'' shop))
             = orders shop @ [new] \<and>
          o_user_id new = 7 \<and> order_number new = ''ORD-'' @ ''77AA00FF'' \<and>
          total_amount new = shop_total"
    by blast
  with filled fresh show ?thesis by blast
qed

end
